theory Spec2Isabelle
  imports Complex_Main "HOL-Library.Sublist" "HOL-Library.AList"
begin

section \<open>Values\<close>

text \<open>
  Python \<open>bytes\<close> are lists of 8-bit characters. A Python \<open>str\<close> is represented by
  its UTF-8 encoding, so \<open>s.encode('utf-8')\<close> is the identity on the representation;
  \<open>startswith\<close> and concatenation agree on both views because UTF-8 is a prefix
  code, and the only slice taken (\<open>content_hash[:16]\<close>) is of a hexadecimal digest.
\<close>

type_synonym bytes = string

definition encode_utf8 :: "string \<Rightarrow> bytes" where
  "encode_utf8 s = s"

text \<open>The values that occur in the dictionaries the services return.\<close>

datatype pyval = PBool bool | PStr string | PInt int | PNone | PDict "(string \<times> pyval) list"

type_synonym pydict = "(string \<times> pyval) list"

text \<open>A raised exception, with the text \<open>str(e)\<close> gives for it.\<close>

datatype error = Exception string

fun str_error :: "error \<Rightarrow> string" where
  "str_error (Exception msg) = msg"

section \<open>verification\_cache.py\<close>

record CacheEntry =
  data :: pydict
  timestamp :: real
  ttl :: int

text \<open>
  \<open>_cache\<close> is enumerated by \<open>invalidate\<close>, so it is an association list in insertion
  order; \<open>_request_timestamps\<close> is only looked up and stored into, so it is a map.
\<close>

record VerificationCache =
  cache :: "(string \<times> CacheEntry) list"
  default_ttl :: int
  request_timestamps :: "string \<rightharpoonup> real"
  throttle_window :: int

definition init_cache :: VerificationCache where
  "init_cache = \<lparr>cache = [], default_ttl = 3600, request_timestamps = Map.empty,
                  throttle_window = 60\<rparr>"

text \<open>\<open>if content_hash:\<close> is false for \<open>None\<close> and for the empty string.\<close>

definition generate_cache_key :: "string \<Rightarrow> string option \<Rightarrow> string" where
  "generate_cache_key document_id content_hash =
     (case content_hash of
        None \<Rightarrow> ''verify:'' @ document_id
      | Some h \<Rightarrow>
          if h \<noteq> [] then ''verify:'' @ document_id @ '':'' @ take 16 h
          else ''verify:'' @ document_id)"

text \<open>\<open>get\<close>: the clock reading \<open>time.time()\<close> is the parameter \<open>current_time\<close>.\<close>

definition get_cache ::
  "VerificationCache \<Rightarrow> string \<Rightarrow> string option \<Rightarrow> real \<Rightarrow> VerificationCache \<times> pydict option" where
  "get_cache c document_id content_hash current_time =
     (let cache_key = generate_cache_key document_id content_hash in
      case map_of (cache c) cache_key of
        None \<Rightarrow> (c, None)
      | Some entry \<Rightarrow>
          if current_time - timestamp entry > real_of_int (ttl entry)
          then (c\<lparr>cache := AList.delete cache_key (cache c)\<rparr>, None)
          else (c, Some (data entry)))"

text \<open>
  \<open>is_throttled\<close>: \<open>if last_request and ...\<close> is false when no time is recorded and
  also when the recorded float is \<open>0.0\<close>.
\<close>

definition is_throttled :: "VerificationCache \<Rightarrow> string \<Rightarrow> real \<Rightarrow> VerificationCache \<times> bool" where
  "is_throttled c document_id current_time =
     (let last_request = request_timestamps c document_id in
      if (case last_request of None \<Rightarrow> False | Some t \<Rightarrow> t \<noteq> 0)
         \<and> current_time - the last_request < real_of_int (throttle_window c)
      then (c, True)
      else (c\<lparr>request_timestamps := (request_timestamps c)(document_id \<mapsto> current_time)\<rparr>,
            False))"

text \<open>\<open>set\<close>: \<open>ttl or self.default_ttl\<close> takes the default for \<open>None\<close> and for \<open>0\<close>.\<close>

definition set_cache ::
  "VerificationCache \<Rightarrow> string \<Rightarrow> pydict \<Rightarrow> string option \<Rightarrow> int option \<Rightarrow> real \<Rightarrow> VerificationCache" where
  "set_cache c document_id verification_result content_hash ttl_arg current_time =
     (let cache_key = generate_cache_key document_id content_hash;
          ttl' = (case ttl_arg of None \<Rightarrow> default_ttl c
                  | Some n \<Rightarrow> if n \<noteq> 0 then n else default_ttl c);
          entry = \<lparr>data = verification_result, timestamp = current_time, ttl = ttl'\<rparr>
      in c\<lparr>cache := AList.update cache_key entry (cache c)\<rparr>)"

text \<open>\<open>invalidate\<close>: collect the keys that start with the raw prefix, then delete each.\<close>

definition invalidate :: "VerificationCache \<Rightarrow> string \<Rightarrow> VerificationCache" where
  "invalidate c document_id =
     (let keys_to_remove = filter (\<lambda>key. prefix (''verify:'' @ document_id) key)
                                  (map fst (cache c))
      in c\<lparr>cache := fold AList.delete keys_to_remove (cache c)\<rparr>)"

section \<open>Collaborators of the ledger service\<close>

text \<open>
  \<open>hashlib\<close>, \<open>base64\<close>, \<open>json\<close>, Fernet and the key-path formatter of the KMS
  client are libraries outside the repository: the model takes them as parameters.
  \<open>fernet_encrypt\<close> receives the random initialisation data as its second argument.
\<close>

record library =
  sha256_hexdigest :: "bytes \<Rightarrow> string"
  sha256_digest :: "bytes \<Rightarrow> bytes"
  b64encode :: "bytes \<Rightarrow> string"
  b64decode :: "string \<Rightarrow> error + bytes"
  fernet_encrypt :: "bytes \<Rightarrow> bytes \<Rightarrow> bytes \<Rightarrow> bytes"
  fernet_decrypt :: "bytes \<Rightarrow> bytes \<Rightarrow> error + bytes"
  crypto_key_path :: "string \<Rightarrow> string \<Rightarrow> string \<Rightarrow> string \<Rightarrow> string"
  json_dumps :: "(string \<times> string) list \<Rightarrow> string"
  isoformat :: "real \<Rightarrow> string"

text \<open>
  What the outside world answers during one call of a public operation: the clock
  readings, the fresh identifiers and keys, and the replies (or failures) of Cloud KMS,
  Cloud Spanner and Cloud Storage.
\<close>

record responses =
  t_is_throttled :: real
  t_get :: real
  t_set :: real
  utcnow :: real
  uuid_hash_id :: string
  uuid_chain_id :: string
  uuid_blob :: string
  generated_dek :: bytes
  fernet_iv :: bytes
  kms_encrypt :: "string \<Rightarrow> bytes \<Rightarrow> error + bytes"
  kms_decrypt :: "string \<Rightarrow> bytes \<Rightarrow> error + bytes"
  kms_asymmetric_sign :: "string \<Rightarrow> bytes \<Rightarrow> error + bytes"
  spanner_read_error :: "error option"
  spanner_insert_error :: "string \<Rightarrow> error option"
  upload_error :: "error option"
  retry_upload_error :: "error option"
  working_storage_credentials :: "(string \<times> string) option"
  gcs_read_error :: "error option"

section \<open>State\<close>

record DocumentHashes_row =
  dh_hash_id :: string
  dh_document_id :: string
  dh_file_hash :: string
  dh_content_hash :: string
  dh_kms_key_version :: string
  dh_signature :: "string option"
  dh_timestamp :: real
  dh_user_id :: string
  dh_file_size :: int
  dh_mime_type :: string
  dh_encryption_metadata :: string
  dh_verification_status :: string

record HashChain_row =
  hc_chain_id :: string
  hc_block_number :: int
  hc_previous_hash :: "string option"
  hc_current_hash :: string
  hc_document_hashes :: "string list"
  hc_merkle_root :: string
  hc_signature :: string
  hc_timestamp :: real

record stored_blob =
  blob_content :: bytes
  blob_metadata :: "(string \<times> string) list"

datatype kms_request =
  KmsEncrypt string bytes | KmsDecrypt string bytes | KmsAsymmetricSign string bytes

text \<open>The attributes of \<open>GCULBlockchainService\<close> the operations read or replace.\<close>

record GCULBlockchainService =
  project_id :: string
  location :: string
  keyring :: string
  encryption_key :: string
  signing_key :: string
  secure_bucket :: string
  storage_client :: "string \<times> string"

text \<open>
  The service object, the module-level cache, the two Spanner tables (rows in insertion
  order), the blobs of the secure bucket, and a trace of the requests sent out: every
  KMS request, the number of Spanner queries and the blob names of the upload attempts.
\<close>

record world =
  service :: GCULBlockchainService
  verification_cache :: VerificationCache
  DocumentHashes :: "DocumentHashes_row list"
  HashChain :: "HashChain_row list"
  bucket_blobs :: "string \<rightharpoonup> stored_blob"
  kms_requests :: "kms_request list"
  spanner_reads :: nat
  upload_attempts :: "string list"

section \<open>Formatting and queries\<close>

definition digit_char :: "nat \<Rightarrow> char" where
  "digit_char d = char_of (48 + d)"

fun str_nat :: "nat \<Rightarrow> string" where
  "str_nat n = (if n < 10 then [digit_char n] else str_nat (n div 10) @ [digit_char (n mod 10)])"

declare str_nat.simps [simp del]

text \<open>\<open>str(i)\<close> of an integer, and an optional string inside an f-string.\<close>

definition str_int :: "int \<Rightarrow> string" where
  "str_int i = (if i < 0 then CHR ''-'' # str_nat (nat (- i)) else str_nat (nat i))"

definition str_opt :: "string option \<Rightarrow> string" where
  "str_opt v = (case v of None \<Rightarrow> ''None'' | Some s \<Rightarrow> s)"

definition dict_get :: "(string \<times> string) list \<Rightarrow> string \<Rightarrow> string \<Rightarrow> string" where
  "dict_get d k dflt = (case map_of d k of None \<Rightarrow> dflt | Some v \<Rightarrow> v)"

text \<open>\<open>if cached_result:\<close> holds for a dictionary that is not \<open>None\<close> and not empty.\<close>

definition truthy :: "pydict option \<Rightarrow> bool" where
  "truthy r = (case r of None \<Rightarrow> False | Some d \<Rightarrow> d \<noteq> [])"

text \<open>
  \<open>ORDER BY key DESC LIMIT 1\<close>: the row with the greatest key, if any. SQL leaves the
  choice among equal keys open; the model takes the earliest inserted one.
\<close>

fun max_row :: "('a \<Rightarrow> 'k::linorder) \<Rightarrow> 'a list \<Rightarrow> 'a option" where
  "max_row key [] = None"
| "max_row key (r # rs) =
     (case max_row key rs of
        None \<Rightarrow> Some r
      | Some m \<Rightarrow> if key r < key m then Some m else Some r)"

text \<open>The two \<open>LIMIT 1\<close> queries of the service.\<close>

definition select_latest_hash_record :: "world \<Rightarrow> string \<Rightarrow> DocumentHashes_row option" where
  "select_latest_hash_record w document_id =
     max_row dh_timestamp (filter (\<lambda>r. dh_document_id r = document_id) (DocumentHashes w))"

definition select_latest_block :: "world \<Rightarrow> HashChain_row option" where
  "select_latest_block w = max_row hc_block_number (HashChain w)"

section \<open>gcul\_blockchain\_service.py\<close>

definition get_encryption_key_name :: "library \<Rightarrow> GCULBlockchainService \<Rightarrow> string" where
  "get_encryption_key_name lib s =
     crypto_key_path lib (project_id s) (location s) (keyring s) (encryption_key s)"

definition get_signing_key_name :: "library \<Rightarrow> GCULBlockchainService \<Rightarrow> string" where
  "get_signing_key_name lib s =
     crypto_key_path lib (project_id s) (location s) (keyring s) (signing_key s)"

definition calculate_file_hash :: "library \<Rightarrow> bytes \<Rightarrow> string" where
  "calculate_file_hash lib content = sha256_hexdigest lib content"

definition calculate_content_hash :: "library \<Rightarrow> string \<Rightarrow> string" where
  "calculate_content_hash lib text = sha256_hexdigest lib (encode_utf8 text)"

text \<open>The three KMS calls: each records its request and returns the reply.\<close>

definition asymmetric_sign ::
  "responses \<Rightarrow> world \<Rightarrow> string \<Rightarrow> bytes \<Rightarrow> world \<times> (error + bytes)" where
  "asymmetric_sign rsp w name digest =
     (w\<lparr>kms_requests := kms_requests w @ [KmsAsymmetricSign name digest]\<rparr>,
      kms_asymmetric_sign rsp name digest)"

definition encrypt_kms ::
  "responses \<Rightarrow> world \<Rightarrow> string \<Rightarrow> bytes \<Rightarrow> world \<times> (error + bytes)" where
  "encrypt_kms rsp w name plaintext =
     (w\<lparr>kms_requests := kms_requests w @ [KmsEncrypt name plaintext]\<rparr>,
      kms_encrypt rsp name plaintext)"

definition decrypt_kms ::
  "responses \<Rightarrow> world \<Rightarrow> string \<Rightarrow> bytes \<Rightarrow> world \<times> (error + bytes)" where
  "decrypt_kms rsp w name ciphertext =
     (w\<lparr>kms_requests := kms_requests w @ [KmsDecrypt name ciphertext]\<rparr>,
      kms_decrypt rsp name ciphertext)"

subsection \<open>encrypt\_document\<close>

text \<open>
  \<open>blob.upload_from_string\<close>: the attempt is recorded; when the Blob Store accepts it
  the blob and its attributes are stored, otherwise the error is raised.
\<close>

definition upload_from_string ::
  "world \<Rightarrow> error option \<Rightarrow> string \<Rightarrow> (string \<times> string) list \<Rightarrow> bytes \<Rightarrow> world \<times> error option" where
  "upload_from_string w outcome blob_name attrs content =
     (let w1 = w\<lparr>upload_attempts := upload_attempts w @ [blob_name]\<rparr> in
      case outcome of
        Some e \<Rightarrow> (w1, Some e)
      | None \<Rightarrow>
          (w1\<lparr>bucket_blobs := (bucket_blobs w1)
                  (blob_name \<mapsto> \<lparr>blob_content = content, blob_metadata = attrs\<rparr>)\<rparr>,
           None))"

definition blob_attributes ::
  "library \<Rightarrow> (string \<times> string) list \<Rightarrow> string \<Rightarrow> bytes \<Rightarrow> bytes \<Rightarrow> bytes \<Rightarrow> (string \<times> string) list" where
  "blob_attributes lib metadata encryption_key_name content encrypted_content encrypted_dek =
     [(''original_filename'', dict_get metadata ''file_name'' ''unknown''),
      (''file_type'', dict_get metadata ''file_type'' ''unknown''),
      (''user_id'', dict_get metadata ''user_id'' ''unknown''),
      (''encrypted_with'', ''GCUL_envelope_encryption''),
      (''kms_key_name'', encryption_key_name),
      (''original_size'', str_int (int (length content))),
      (''encrypted_size'', str_int (int (length encrypted_content))),
      (''envelope_metadata'', b64encode lib encrypted_dek)]"

definition encryption_metadata ::
  "library \<Rightarrow> responses \<Rightarrow> world \<Rightarrow> string \<Rightarrow> string \<Rightarrow> bytes \<Rightarrow> bytes \<Rightarrow> bytes \<Rightarrow> pydict" where
  "encryption_metadata lib rsp w blob_name encryption_key_name content encrypted_content encrypted_dek =
     [(''blob_name'', PStr blob_name),
      (''bucket'', PStr (secure_bucket (service w))),
      (''kms_key'', PStr encryption_key_name),
      (''encrypted_at'', PStr (isoformat lib (utcnow rsp))),
      (''file_size'', PInt (int (length content))),
      (''encryption_algorithm'', PStr ''AES-256 + KMS envelope encryption''),
      (''envelope_metadata'', PDict
         [(''encrypted_dek'', PStr (b64encode lib encrypted_dek)),
          (''kms_key_name'', PStr encryption_key_name),
          (''encryption_algorithm'', PStr ''AES-256 + KMS''),
          (''envelope_encryption'', PBool True)]),
      (''original_size'', PInt (int (length content))),
      (''encrypted_size'', PInt (int (length encrypted_content)))]"

text \<open>
  The outer \<open>except ... raise\<close> re-raises what it caught, so the errors below are the
  ones the caller sees. In the retry branch every failure, the missing credentials
  included, ends in \<open>raise upload_error\<close>.
\<close>

definition encrypt_document ::
  "library \<Rightarrow> responses \<Rightarrow> world \<Rightarrow> bytes \<Rightarrow> (string \<times> string) list
     \<Rightarrow> world \<times> (error + string \<times> pydict)" where
  "encrypt_document lib rsp w content metadata =
     (let dek = generated_dek rsp;
          encrypted_content = fernet_encrypt lib dek (fernet_iv rsp) content;
          encryption_key_name = get_encryption_key_name lib (service w);
          (w1, encrypt_response) = encrypt_kms rsp w encryption_key_name dek
      in case encrypt_response of
           Inl e \<Rightarrow> (w1, Inl e)
         | Inr encrypted_dek \<Rightarrow>
            (let blob_name = ''encrypted/'' @ uuid_blob rsp @ ''.enc'';
                 attrs = blob_attributes lib metadata encryption_key_name content
                           encrypted_content encrypted_dek;
                 result = (\<lambda>w'. (w', Inr (blob_name,
                             encryption_metadata lib rsp w' blob_name encryption_key_name
                               content encrypted_content encrypted_dek)));
                 (w2, first_try) = upload_from_string w1 (upload_error rsp) blob_name attrs
                                     encrypted_content
             in case first_try of
                  None \<Rightarrow> result w2
                | Some upload_err \<Rightarrow>
                   (case working_storage_credentials rsp of
                      None \<Rightarrow> (w2, Inl upload_err)
                    | Some (storage_credentials, storage_project) \<Rightarrow>
                       (let w3 = w2\<lparr>service := (service w2)
                                      \<lparr>storage_client := (storage_project, storage_credentials)\<rparr>\<rparr>;
                            (w4, second_try) = upload_from_string w3 (retry_upload_error rsp)
                                                 blob_name attrs encrypted_content
                        in case second_try of
                             None \<Rightarrow> result w4
                           | Some retry_err \<Rightarrow> (w4, Inl upload_err)))))"

subsection \<open>decrypt\_document\<close>

definition decrypt_document ::
  "library \<Rightarrow> responses \<Rightarrow> world \<Rightarrow> string \<Rightarrow> world \<times> (error + bytes)" where
  "decrypt_document lib rsp w blob_name =
     (case gcs_read_error rsp of
        Some e \<Rightarrow> (w, Inl e)
      | None \<Rightarrow>
         (case bucket_blobs w blob_name of
            None \<Rightarrow> (w, Inl (Exception (''Encrypted blob not found: '' @ blob_name)))
          | Some blob \<Rightarrow>
             (let encrypted_content = blob_content blob in
              if blob_metadata blob \<noteq> []
                 \<and> map_of (blob_metadata blob) ''encrypted_with'' = Some ''GCUL_envelope_encryption''
              then
                (case map_of (blob_metadata blob) ''envelope_metadata'' of
                   None \<Rightarrow> (w, Inl (Exception ''Envelope metadata not found in blob''))
                 | Some encrypted_dek_b64 \<Rightarrow>
                    if encrypted_dek_b64 = []
                    then (w, Inl (Exception ''Envelope metadata not found in blob''))
                    else
                     (case b64decode lib encrypted_dek_b64 of
                        Inl e \<Rightarrow> (w, Inl e)
                      | Inr encrypted_dek \<Rightarrow>
                         (let encryption_key_name = get_encryption_key_name lib (service w);
                              (w1, decrypt_response) = decrypt_kms rsp w encryption_key_name
                                                         encrypted_dek
                          in case decrypt_response of
                               Inl e \<Rightarrow> (w1, Inl e)
                             | Inr dek \<Rightarrow> (w1, fernet_decrypt lib dek encrypted_content))))
              else
                (let encryption_key_name = get_encryption_key_name lib (service w)
                 in decrypt_kms rsp w encryption_key_name encrypted_content))))"

text \<open>
  What the round trip assumes of the collaborators: Fernet decryption inverts Fernet
  encryption under the same key, base64 decoding inverts encoding and encodes no
  non-empty input as the empty string, and the Key Service unwraps what it wrapped and
  never returns an empty ciphertext.
\<close>

definition library_round_trips :: "library \<Rightarrow> bool" where
  "library_round_trips lib =
     ((\<forall>k iv p. fernet_decrypt lib k (fernet_encrypt lib k iv p) = Inr p)
      \<and> (\<forall>x. b64decode lib (b64encode lib x) = Inr x)
      \<and> (\<forall>x. x \<noteq> [] \<longrightarrow> b64encode lib x \<noteq> []))"

definition unwrap_inverts_wrap :: "responses \<Rightarrow> responses \<Rightarrow> bool" where
  "unwrap_inverts_wrap rsp rsp' =
     (\<forall>name k c. kms_encrypt rsp name k = Inr c \<longrightarrow> kms_decrypt rsp' name c = Inr k \<and> c \<noteq> [])"

subsection \<open>\_add\_to\_hash\_chain\<close>

definition insert_HashChain :: "responses \<Rightarrow> world \<Rightarrow> HashChain_row \<Rightarrow> world \<times> error option" where
  "insert_HashChain rsp w row =
     (case spanner_insert_error rsp ''HashChain'' of
        Some e \<Rightarrow> (w, Some e)
      | None \<Rightarrow> (w\<lparr>HashChain := HashChain w @ [row]\<rparr>, None))"

definition block_data :: "int \<Rightarrow> string option \<Rightarrow> string \<Rightarrow> string" where
  "block_data block_number previous_hash merkle_root =
     str_int block_number @ '':'' @ str_opt previous_hash @ '':'' @ merkle_root"

definition add_to_hash_chain ::
  "library \<Rightarrow> responses \<Rightarrow> world \<Rightarrow> string list \<Rightarrow> world \<times> (error + string)" where
  "add_to_hash_chain lib rsp w document_hashes =
     (let w1 = w\<lparr>spanner_reads := Suc (spanner_reads w)\<rparr> in
      case spanner_read_error rsp of
        Some e \<Rightarrow> (w1, Inl e)
      | None \<Rightarrow>
         (let (previous_hash, block_number) =
                (case select_latest_block w1 of
                   Some last_block \<Rightarrow>
                     (Some (hc_current_hash last_block), hc_block_number last_block + 1)
                 | None \<Rightarrow> (None, 0));
              chain_id = uuid_chain_id rsp;
              merkle_root = sha256_hexdigest lib (encode_utf8 (concat document_hashes));
              current_hash = sha256_hexdigest lib
                               (encode_utf8 (block_data block_number previous_hash merkle_root));
              signing_key_name = get_signing_key_name lib (service w1);
              (w2, sign_response) =
                 asymmetric_sign rsp w1 (signing_key_name @ ''/cryptoKeyVersions/1'')
                   (sha256_digest lib (encode_utf8 current_hash))
          in case sign_response of
               Inl e \<Rightarrow> (w2, Inl e)
             | Inr sig \<Rightarrow>
                (let signature = b64encode lib sig;
                     (w3, failed) = insert_HashChain rsp w2
                        \<lparr>hc_chain_id = chain_id, hc_block_number = block_number,
                         hc_previous_hash = previous_hash, hc_current_hash = current_hash,
                         hc_document_hashes = document_hashes, hc_merkle_root = merkle_root,
                         hc_signature = signature, hc_timestamp = utcnow rsp\<rparr>
                 in case failed of
                      Some e \<Rightarrow> (w3, Inl e)
                    | None \<Rightarrow> (w3, Inr chain_id))))"

subsection \<open>create\_document\_hash\_record\<close>

definition insert_DocumentHashes ::
  "responses \<Rightarrow> world \<Rightarrow> DocumentHashes_row \<Rightarrow> world \<times> error option" where
  "insert_DocumentHashes rsp w row =
     (case spanner_insert_error rsp ''DocumentHashes'' of
        Some e \<Rightarrow> (w, Some e)
      | None \<Rightarrow> (w\<lparr>DocumentHashes := DocumentHashes w @ [row]\<rparr>, None))"

definition hash_to_sign :: "string \<Rightarrow> string \<Rightarrow> string \<Rightarrow> bytes" where
  "hash_to_sign file_hash content_hash document_id =
     encode_utf8 (file_hash @ '':'' @ content_hash @ '':'' @ document_id)"

definition create_document_hash_record ::
  "library \<Rightarrow> responses \<Rightarrow> world \<Rightarrow> string \<Rightarrow> bytes \<Rightarrow> string \<Rightarrow> string
     \<Rightarrow> (string \<times> string) list \<Rightarrow> world \<times> (error + string)" where
  "create_document_hash_record lib rsp w document_id content extracted_text user_id metadata =
     (let file_hash = calculate_file_hash lib content;
          content_hash = calculate_content_hash lib extracted_text;
          hash_id = uuid_hash_id rsp;
          key_name = get_encryption_key_name lib (service w);
          signing_key_name = get_signing_key_name lib (service w);
          (w1, sign_response) =
             asymmetric_sign rsp w (signing_key_name @ ''/cryptoKeyVersions/1'')
               (sha256_digest lib (hash_to_sign file_hash content_hash document_id))
      in case sign_response of
           Inl e \<Rightarrow> (w1, Inl e)
         | Inr sig \<Rightarrow>
            (let signature = b64encode lib sig;
                 (w2, failed) = insert_DocumentHashes rsp w1
                    \<lparr>dh_hash_id = hash_id, dh_document_id = document_id,
                     dh_file_hash = file_hash, dh_content_hash = content_hash,
                     dh_kms_key_version = key_name @ ''/cryptoKeyVersions/1'',
                     dh_signature = Some signature, dh_timestamp = utcnow rsp,
                     dh_user_id = user_id, dh_file_size = int (length content),
                     dh_mime_type = dict_get metadata ''mime_type'' ''application/octet-stream'',
                     dh_encryption_metadata = json_dumps lib metadata,
                     dh_verification_status = ''VERIFIED''\<rparr>
             in case failed of
                  Some e \<Rightarrow> (w2, Inl e)
                | None \<Rightarrow>
                   (case add_to_hash_chain lib rsp w2 [hash_id] of
                      (w3, Inl e) \<Rightarrow> (w3, Inl e)
                    | (w3, Inr chain_id) \<Rightarrow> (w3, Inr hash_id))))"

subsection \<open>verify\_document\_integrity\<close>

definition throttled_result :: pydict where
  "throttled_result =
     [(''verified'', PBool False), (''is_valid'', PBool False), (''status'', PStr ''THROTTLED''),
      (''message'', PStr ''Request throttled - please wait before retrying''),
      (''throttled'', PBool True)]"

definition not_found_result :: "string \<Rightarrow> pydict" where
  "not_found_result current_hash =
     [(''verified'', PBool False), (''is_valid'', PBool False), (''status'', PStr ''NOT_FOUND''),
      (''expected_hash'', PStr ''N/A''), (''actual_hash'', PStr current_hash),
      (''algorithm'', PStr ''SHA-256''), (''blockchain_record'', PStr ''Not Found''),
      (''message'', PStr ''No hash record found for document'')]"

definition found_result :: "DocumentHashes_row \<Rightarrow> string \<Rightarrow> pydict" where
  "found_result stored_record current_hash =
     (let integrity_verified = (current_hash = dh_file_hash stored_record) in
      [(''verified'', PBool integrity_verified), (''is_valid'', PBool integrity_verified),
       (''status'', PStr (if integrity_verified then ''VERIFIED'' else ''TAMPERED'')),
       (''hash_id'', PStr (dh_hash_id stored_record)),
       (''stored_hash'', PStr (dh_file_hash stored_record)),
       (''expected_hash'', PStr (dh_file_hash stored_record)),
       (''current_hash'', PStr current_hash), (''actual_hash'', PStr current_hash),
       (''signature_valid'', PBool (dh_signature stored_record \<noteq> None)),
       (''verification_status'', PStr (dh_verification_status stored_record)),
       (''algorithm'', PStr ''SHA-256''), (''blockchain_record'', PStr ''Found'')])"

definition error_result :: "error \<Rightarrow> pydict" where
  "error_result e =
     [(''verified'', PBool False), (''is_valid'', PBool False), (''status'', PStr ''ERROR''),
      (''expected_hash'', PStr ''N/A''), (''actual_hash'', PStr ''N/A''),
      (''algorithm'', PStr ''SHA-256''), (''blockchain_record'', PStr ''Error''),
      (''message'', PStr (''Verification failed: '' @ str_error e))]"

text \<open>The body of the \<open>try\<close>: \<open>Inl\<close> is an exception that reaches the \<open>except\<close>.\<close>

definition verify_try ::
  "library \<Rightarrow> responses \<Rightarrow> world \<Rightarrow> string \<Rightarrow> bytes \<Rightarrow> world \<times> (error + pydict)" where
  "verify_try lib rsp w document_id current_content =
     (let (c1, throttled) = is_throttled (verification_cache w) document_id (t_is_throttled rsp);
          w1 = w\<lparr>verification_cache := c1\<rparr>
      in if throttled then
           (let (c2, cached_result) = get_cache c1 document_id None (t_get rsp);
                w2 = w1\<lparr>verification_cache := c2\<rparr>
            in if truthy cached_result then (w2, Inr (the cached_result))
               else (w2, Inr throttled_result))
         else
           (let current_hash = calculate_file_hash lib current_content;
                (c2, cached_result) = get_cache c1 document_id (Some current_hash) (t_get rsp);
                w2 = w1\<lparr>verification_cache := c2\<rparr>
            in if truthy cached_result then (w2, Inr (the cached_result))
               else
                (let w3 = w2\<lparr>spanner_reads := Suc (spanner_reads w2)\<rparr> in
                 case spanner_read_error rsp of
                   Some e \<Rightarrow> (w3, Inl e)
                 | None \<Rightarrow>
                    (case select_latest_hash_record w3 document_id of
                       None \<Rightarrow>
                        (let verification_result = not_found_result current_hash in
                         (w3\<lparr>verification_cache :=
                               set_cache c2 document_id verification_result (Some current_hash)
                                 (Some 300) (t_set rsp)\<rparr>,
                          Inr verification_result))
                     | Some stored_record \<Rightarrow>
                        (let integrity_verified = (current_hash = dh_file_hash stored_record);
                             verification_result = found_result stored_record current_hash;
                             cache_ttl = (if integrity_verified then 3600 else 1800)
                         in (w3\<lparr>verification_cache :=
                                  set_cache c2 document_id verification_result
                                    (Some current_hash) (Some cache_ttl) (t_set rsp)\<rparr>,
                             Inr verification_result))))))"

definition verify_document_integrity ::
  "library \<Rightarrow> responses \<Rightarrow> world \<Rightarrow> string \<Rightarrow> bytes \<Rightarrow> world \<times> pydict" where
  "verify_document_integrity lib rsp w document_id current_content =
     (case verify_try lib rsp w document_id current_content of
        (w', Inr verification_result) \<Rightarrow> (w', verification_result)
      | (w', Inl e) \<Rightarrow> (w', error_result e))"

text \<open>
  The two conditions under which a call reaches the Spanner query: the throttle gate
  lets the call through, and the lookup under the content-hash key finds nothing usable.
\<close>

definition gate_open :: "world \<Rightarrow> responses \<Rightarrow> string \<Rightarrow> bool" where
  "gate_open w rsp document_id =
     (\<not> snd (is_throttled (verification_cache w) document_id (t_is_throttled rsp)))"

definition cache_miss :: "library \<Rightarrow> world \<Rightarrow> responses \<Rightarrow> string \<Rightarrow> bytes \<Rightarrow> bool" where
  "cache_miss lib w rsp document_id current_content =
     (\<not> truthy (snd (get_cache
          (fst (is_throttled (verification_cache w) document_id (t_is_throttled rsp)))
          document_id (Some (calculate_file_hash lib current_content)) (t_get rsp))))"

subsection \<open>Sequences of block appends\<close>

text \<open>
  Sequential calls of \<open>_add_to_hash_chain\<close>, each with its own replies of the
  collaborators; a call that raises leaves the chain as it was and the next call goes on.
  \<open>chain_linked\<close> is the linkage of a list of blocks read in insertion order.
\<close>

fun append_blocks :: "library \<Rightarrow> world \<Rightarrow> (responses \<times> string list) list \<Rightarrow> world" where
  "append_blocks lib w [] = w"
| "append_blocks lib w ((rsp, document_hashes) # calls) =
     append_blocks lib (fst (add_to_hash_chain lib rsp w document_hashes)) calls"

definition chain_linked :: "library \<Rightarrow> HashChain_row list \<Rightarrow> bool" where
  "chain_linked lib blocks =
     (\<forall>k < length blocks.
        hc_block_number (blocks ! k) = int k
      \<and> hc_previous_hash (blocks ! k)
          = (if k = 0 then None else Some (hc_current_hash (blocks ! (k - 1))))
      \<and> hc_current_hash (blocks ! k)
          = sha256_hexdigest lib (encode_utf8
              (block_data (hc_block_number (blocks ! k)) (hc_previous_hash (blocks ! k))
                 (hc_merkle_root (blocks ! k)))))"

section \<open>Example data\<close>

text \<open>A cache holding one result for document \<open>doc\<close> and one for \<open>other\<close>.\<close>

definition example_cache :: VerificationCache where
  "example_cache =
     set_cache
       (set_cache init_cache ''doc'' [(''status'', PStr ''VERIFIED'')]
          (Some ''2cf24dba5fb0a30e26e83b2ac5b9e29e1b161e5c1fa7425e73043362938b9824'')
          (Some 3600) 1000)
       ''other'' [(''status'', PStr ''TAMPERED'')]
       (Some ''82e35a63ceba37e9646434c5dd412ea577147f1e4a41ccde1614253187e3dbf9'')
       (Some 1800) 1001"

text \<open>
  Stand-ins for the libraries and the cloud services, to run the model on concrete input.
  \<open>example_sha256\<close> lists the SHA-256 digests of the byte strings the examples feed
  it; the other functions are simple invertible doubles, not the real algorithms.
\<close>

definition example_sha256 :: "bytes \<Rightarrow> string" where
  "example_sha256 x =
     (if x = ''hello'' then ''2cf24dba5fb0a30e26e83b2ac5b9e29e1b161e5c1fa7425e73043362938b9824''
      else if x = ''goodbye'' then ''82e35a63ceba37e9646434c5dd412ea577147f1e4a41ccde1614253187e3dbf9''
      else if x = ''anything'' then ''ee0874170b7f6f32b8c2ac9573c428d35b575270a66b757c2c0185d2bd09718d''
      else if x = ''hello world'' then ''b94d27b9934d3e08a52e52d7da7dabfac484efe37a5380ee9088f7ace2efcde9''
      else if x = ''hash-1'' then ''73a370509b33f7d64369bf097335b57c4021bd28e33a3f12c1b622fd62222374''
      else if x = ''hash-2'' then ''68240addda41562dabc703d040452cbd977e8e52035a4addb58a447b3468caad''
      else if x = ''0:None:73a370509b33f7d64369bf097335b57c4021bd28e33a3f12c1b622fd62222374''
        then ''345962fdd02111d18bb0af30bc31a41b2ba714ed88896fb0398c0355458b772a''
      else if x = ''1:345962fdd02111d18bb0af30bc31a41b2ba714ed88896fb0398c0355458b772a:68240addda41562dabc703d040452cbd977e8e52035a4addb58a447b3468caad''
        then ''d061749327f3c6437438f55dd36b855265a5525c19d11dcaaf8c210a04293cdb''
      else ''unlisted'')"

definition example_library :: library where
  "example_library =
     \<lparr>sha256_hexdigest = example_sha256,
      sha256_digest = (\<lambda>x. ''digest:'' @ x),
      b64encode = (\<lambda>x. ''b64:'' @ x),
      b64decode = (\<lambda>s. if prefix ''b64:'' s then Inr (drop 4 s)
                         else Inl (Exception ''Incorrect padding'')),
      fernet_encrypt = (\<lambda>k iv p. k @ p),
      fernet_decrypt = (\<lambda>k c. if prefix k c then Inr (drop (length k) c)
                               else Inl (Exception ''InvalidToken'')),
      crypto_key_path = (\<lambda>p l r k. ''projects/'' @ p @ ''/locations/'' @ l @ ''/keyRings/'' @ r
                                     @ ''/cryptoKeys/'' @ k),
      json_dumps = (\<lambda>d. ''{}''),
      isoformat = (\<lambda>t. ''2026-01-01T00:00:00'')\<rparr>"

definition example_responses :: responses where
  "example_responses =
     \<lparr>t_is_throttled = 1000, t_get = 1000, t_set = 1000, utcnow = 1000,
      uuid_hash_id = ''hash-1'', uuid_chain_id = ''chain-1'', uuid_blob = ''blob-1'',
      generated_dek = ''dek'', fernet_iv = ''iv'',
      kms_encrypt = (\<lambda>name k. Inr (''wrapped:'' @ k)),
      kms_decrypt = (\<lambda>name c. if prefix ''wrapped:'' c then Inr (drop 8 c)
                                else Inl (Exception ''Decryption failed'')),
      kms_asymmetric_sign = (\<lambda>name digest. Inr (''signed:'' @ digest)),
      spanner_read_error = None,
      spanner_insert_error = (\<lambda>table. None),
      upload_error = None, retry_upload_error = None,
      working_storage_credentials = Some (''token-2'', ''demo''),
      gcs_read_error = None\<rparr>"

definition example_world :: world where
  "example_world =
     \<lparr>service = \<lparr>project_id = ''demo'', location = ''global'', keyring = ''legallens-keyring'',
                 encryption_key = ''document-encryption-key'', signing_key = ''hash-signing-key'',
                 secure_bucket = ''legallens-secure-docs'', storage_client = (''demo'', ''token-1'')\<rparr>,
      verification_cache = init_cache, DocumentHashes = [], HashChain = [],
      bucket_blobs = Map.empty, kms_requests = [], spanner_reads = 0, upload_attempts = []\<rparr>"

definition recorded_world :: world where
  "recorded_world =
     fst (create_document_hash_record example_library example_responses example_world
            ''doc-1'' ''hello'' ''hello world'' ''user-1'' [])"


text \<open>
  The scenario of the specification: a hash record for \<open>doc-1\<close> with content \<open>hello\<close>,
  then a first verification at time 1000, a second one half a second later, a verification
  during a Spanner outage, and a table row whose signature column holds arbitrary text.
\<close>

definition second_responses :: responses where
  "second_responses = example_responses\<lparr>t_is_throttled := 2001 / 2, t_get := 2001 / 2, t_set := 2001 / 2\<rparr>"

definition after_first_verify :: world where
  "after_first_verify =
     fst (verify_document_integrity example_library example_responses recorded_world ''doc-1'' ''hello'')"

definition failing_responses :: responses where
  "failing_responses = example_responses
     \<lparr>t_is_throttled := 2000, t_get := 2000, t_set := 2000,
      spanner_read_error := Some (Exception ''503 unavailable'')\<rparr>"

definition forged_world :: world where
  "forged_world = example_world
     \<lparr>DocumentHashes :=
        [\<lparr>dh_hash_id = ''hash-9'', dh_document_id = ''doc-9'',
          dh_file_hash = ''2cf24dba5fb0a30e26e83b2ac5b9e29e1b161e5c1fa7425e73043362938b9824'',
          dh_content_hash = ''b94d27b9934d3e08a52e52d7da7dabfac484efe37a5380ee9088f7ace2efcde9'',
          dh_kms_key_version = ''k'', dh_signature = Some ''not a signature'',
          dh_timestamp = 900, dh_user_id = ''user-1'', dh_file_size = 5,
          dh_mime_type = ''text/plain'', dh_encryption_metadata = ''{}'',
          dh_verification_status = ''VERIFIED''\<rparr>]\<rparr>"

text \<open>Two appends in a row on the empty ledger.\<close>

definition example_calls :: "(responses \<times> string list) list" where
  "example_calls =
     [(example_responses, [''hash-1'']),
      (example_responses\<lparr>uuid_chain_id := ''chain-2''\<rparr>, [''hash-2''])]"

text \<open>
  Replies for an upload that fails: without fresh credentials, with a failing retry, and
  with a retry that succeeds.
\<close>

definition no_credentials_responses :: responses where
  "no_credentials_responses = example_responses
     \<lparr>upload_error := Some (Exception ''upload failed''), working_storage_credentials := None\<rparr>"

definition retry_fails_responses :: responses where
  "retry_fails_responses = example_responses
     \<lparr>upload_error := Some (Exception ''upload failed''),
      retry_upload_error := Some (Exception ''retry failed'')\<rparr>"

definition retry_succeeds_responses :: responses where
  "retry_succeeds_responses = example_responses
     \<lparr>upload_error := Some (Exception ''upload failed'')\<rparr>"

text \<open>
  A second hash record for \<open>doc-1\<close>, made at time 2000 for the content \<open>goodbye\<close>
  after the first one, and a table whose most recent row was inserted first.
\<close>

definition second_record_responses :: responses where
  "second_record_responses = example_responses
     \<lparr>utcnow := 2000, uuid_hash_id := ''hash-2'', uuid_chain_id := ''chain-2''\<rparr>"

definition rerecorded_world :: world where
  "rerecorded_world =
     fst (create_document_hash_record example_library second_record_responses recorded_world
            ''doc-1'' ''goodbye'' ''hello world'' ''user-1'' [])"

definition unordered_world :: world where
  "unordered_world = example_world
     \<lparr>DocumentHashes :=
        [\<lparr>dh_hash_id = ''hash-8'', dh_document_id = ''doc-1'',
          dh_file_hash = ''82e35a63ceba37e9646434c5dd412ea577147f1e4a41ccde1614253187e3dbf9'',
          dh_content_hash = ''b94d27b9934d3e08a52e52d7da7dabfac484efe37a5380ee9088f7ace2efcde9'',
          dh_kms_key_version = ''k'', dh_signature = Some ''s'',
          dh_timestamp = 200, dh_user_id = ''user-1'', dh_file_size = 7,
          dh_mime_type = ''text/plain'', dh_encryption_metadata = ''{}'',
          dh_verification_status = ''VERIFIED''\<rparr>,
         \<lparr>dh_hash_id = ''hash-7'', dh_document_id = ''doc-1'',
          dh_file_hash = ''2cf24dba5fb0a30e26e83b2ac5b9e29e1b161e5c1fa7425e73043362938b9824'',
          dh_content_hash = ''b94d27b9934d3e08a52e52d7da7dabfac484efe37a5380ee9088f7ace2efcde9'',
          dh_kms_key_version = ''k'', dh_signature = Some ''s'',
          dh_timestamp = 100, dh_user_id = ''user-1'', dh_file_size = 5,
          dh_mime_type = ''text/plain'', dh_encryption_metadata = ''{}'',
          dh_verification_status = ''VERIFIED''\<rparr>]\<rparr>"

section \<open>Properties of the verification cache\<close>

lemma map_of_fold_delete:
  "map_of (fold AList.delete ks al) k = (if k \<in> set ks then None else map_of al k)"
  by (induction ks arbitrary: al) (auto simp: delete_conv)

lemma invalidate_lookup:
  "map_of (cache (invalidate c d)) k =
     (if prefix (''verify:'' @ d) k then None else map_of (cache c) k)"
proof (cases "prefix (''verify:'' @ d) k")
  case True
  then show ?thesis
    by (simp add: invalidate_def map_of_fold_delete map_of_eq_None_iff)
next
  case False
  then show ?thesis by (simp add: invalidate_def map_of_fold_delete)
qed

lemma key_prefix_iff:
  "prefix (''verify:'' @ d2) (generate_cache_key d3 h) \<longleftrightarrow>
     prefix d2 d3
     \<or> (h \<noteq> None \<and> the h \<noteq> []
        \<and> (\<exists>us. d2 = d3 @ us \<and> us \<noteq> [] \<and> prefix us ('':'' @ take 16 (the h))))"
  by (auto simp: generate_cache_key_def prefix_append split: option.splits)

text \<open>
  C6. With the 60 second window of the constructor: \<open>is_throttled\<close> answers False and
  records the current time when no request of the document was recorded in the last 60
  seconds; it answers True and changes nothing when the recorded request is less than 60
  seconds old; so a call, a second call within the window and a third call after the
  window answer False, True, False. Clock readings are positive: \<open>time.time()\<close> counts
  the seconds since 1970, and the source treats a recorded \<open>0.0\<close> as no record.
\<close>

theorem is_throttled_window:
  assumes win: "throttle_window c = 60"
  shows
   "((\<forall>t. request_timestamps c d = Some t \<longrightarrow> 60 \<le> now - t) \<longrightarrow>
        is_throttled c d now
          = (c\<lparr>request_timestamps := (request_timestamps c)(d \<mapsto> now)\<rparr>, False))
    \<and> (\<forall>t. request_timestamps c d = Some t \<and> 0 < t \<and> now - t < 60 \<longrightarrow>
           is_throttled c d now = (c, True))
    \<and> ((\<forall>t. request_timestamps c d = Some t \<longrightarrow> 60 \<le> t1 - t) \<and> 0 < t1
          \<and> t2 - t1 < 60 \<and> 60 \<le> t3 - t1 \<longrightarrow>
        (let (c1, r1) = is_throttled c d t1;
             (c2, r2) = is_throttled c1 d t2;
             (c3, r3) = is_throttled c2 d t3
         in \<not> r1 \<and> r2 \<and> \<not> r3 \<and> c2 = c1 \<and> request_timestamps c1 d = Some t1
            \<and> request_timestamps c3 d = Some t3))"
  using win by (auto simp: is_throttled_def Let_def split: option.splits)

theorem is_throttled_window_witness:
  "is_throttled init_cache ''doc-1'' 1000
     = (init_cache\<lparr>request_timestamps := [''doc-1'' \<mapsto> 1000]\<rparr>, False)
   \<and> is_throttled (init_cache\<lparr>request_timestamps := [''doc-1'' \<mapsto> 1000]\<rparr>) ''doc-1'' 1030
     = (init_cache\<lparr>request_timestamps := [''doc-1'' \<mapsto> 1000]\<rparr>, True)
   \<and> fst (is_throttled (init_cache\<lparr>request_timestamps := [''doc-1'' \<mapsto> 1000]\<rparr>) ''doc-1'' 1060)
     = init_cache\<lparr>request_timestamps := [''doc-1'' \<mapsto> 1060]\<rparr>"
  using is_throttled_window [of init_cache "''doc-1''" 1000 1000 1030 1060]
    is_throttled_window [of "init_cache\<lparr>request_timestamps := [''doc-1'' \<mapsto> 1000]\<rparr>"
                            "''doc-1''" 1030 1000 1030 1060]
    is_throttled_window [of "init_cache\<lparr>request_timestamps := [''doc-1'' \<mapsto> 1000]\<rparr>"
                            "''doc-1''" 1060 1000 1030 1060]
  by (simp add: init_cache_def)

text \<open>
  C9, as stated, fails in its last part: the entry of document \<open>doc\<close> under the key
  \<open>verify:doc:2cf24dba5fb0a30e\<close> is removed by \<open>invalidate('doc:2cf2')\<close>, although
  \<open>doc\<close> does not start with \<open>doc:2cf2\<close>.
\<close>

theorem invalidate_frame_counterexample:
  "\<not> prefix ''doc:2cf2'' ''doc''
   \<and> map_of (cache (invalidate example_cache ''doc:2cf2''))
        (generate_cache_key ''doc''
           (Some ''2cf24dba5fb0a30e26e83b2ac5b9e29e1b161e5c1fa7425e73043362938b9824''))
     \<noteq> map_of (cache example_cache)
        (generate_cache_key ''doc''
           (Some ''2cf24dba5fb0a30e26e83b2ac5b9e29e1b161e5c1fa7425e73043362938b9824''))"
  by (simp add: example_cache_def set_cache_def init_cache_def generate_cache_key_def
        invalidate_def)

text \<open>
  C9, amended. \<open>invalidate(d2)\<close> removes every entry stored for a document whose
  identifier starts with \<open>d2\<close>; the entries of a document \<open>d3\<close> are unchanged when
  \<open>d3\<close> does not start with \<open>d2\<close> and \<open>d2\<close> does not start with \<open>d3\<close> followed by a
  colon.
\<close>

theorem invalidate_prefix_overmatch:
  "(prefix d2 d1 \<longrightarrow> map_of (cache (invalidate c d2)) (generate_cache_key d1 h) = None)
   \<and> (\<not> prefix d2 d3 \<and> \<not> prefix (d3 @ '':'') d2 \<longrightarrow>
        map_of (cache (invalidate c d2)) (generate_cache_key d3 h)
          = map_of (cache c) (generate_cache_key d3 h))"
proof (intro conjI impI)
  assume "prefix d2 d1"
  then have "prefix (''verify:'' @ d2) (generate_cache_key d1 h)"
    using key_prefix_iff [of d2 d1 h] by simp
  then show "map_of (cache (invalidate c d2)) (generate_cache_key d1 h) = None"
    by (simp only: invalidate_lookup if_True)
next
  assume a: "\<not> prefix d2 d3 \<and> \<not> prefix (d3 @ '':'') d2"
  have "\<not> prefix (''verify:'' @ d2) (generate_cache_key d3 h)"
  proof
    assume "prefix (''verify:'' @ d2) (generate_cache_key d3 h)"
    with a key_prefix_iff [of d2 d3 h]
    obtain us where us: "d2 = d3 @ us" "us \<noteq> []" "prefix us ('':'' @ take 16 (the h))"
      by auto
    then obtain vs where "us = CHR '':'' # vs"
      by (cases us) auto
    with us a show False by (simp add: prefix_def)
  qed
  then show "map_of (cache (invalidate c d2)) (generate_cache_key d3 h)
          = map_of (cache c) (generate_cache_key d3 h)"
    by (simp only: invalidate_lookup if_False)
qed

theorem invalidate_prefix_overmatch_witness:
  "prefix ''do'' ''doc''
   \<and> map_of (cache (invalidate example_cache ''do''))
        (generate_cache_key ''doc''
           (Some ''2cf24dba5fb0a30e26e83b2ac5b9e29e1b161e5c1fa7425e73043362938b9824'')) = None
   \<and> \<not> prefix ''do'' ''other'' \<and> \<not> prefix (''other'' @ '':'') ''do''
   \<and> map_of (cache (invalidate example_cache ''do''))
        (generate_cache_key ''other''
           (Some ''82e35a63ceba37e9646434c5dd412ea577147f1e4a41ccde1614253187e3dbf9''))
     = Some \<lparr>data = [(''status'', PStr ''TAMPERED'')], timestamp = 1001, ttl = 1800\<rparr>"
  using invalidate_prefix_overmatch [of "''do''" "''doc''" example_cache
      "Some ''2cf24dba5fb0a30e26e83b2ac5b9e29e1b161e5c1fa7425e73043362938b9824''" "''other''"]
    invalidate_prefix_overmatch [of "''do''" "''doc''" example_cache
      "Some ''82e35a63ceba37e9646434c5dd412ea577147f1e4a41ccde1614253187e3dbf9''" "''other''"]
  by (simp add: example_cache_def set_cache_def init_cache_def generate_cache_key_def)

section \<open>Properties of verification\<close>

lemma select_latest_hash_record_frame [simp]:
  "select_latest_hash_record (w\<lparr>verification_cache := c\<rparr>) d = select_latest_hash_record w d"
  "select_latest_hash_record (w\<lparr>spanner_reads := n\<rparr>) d = select_latest_hash_record w d"
  by (simp_all add: select_latest_hash_record_def)

lemma verify_try_miss:
  assumes "gate_open w rsp d" and "cache_miss lib w rsp d C"
  shows "verify_try lib rsp w d C =
     (let c1 = fst (is_throttled (verification_cache w) d (t_is_throttled rsp));
          current_hash = calculate_file_hash lib C;
          c2 = fst (get_cache c1 d (Some current_hash) (t_get rsp));
          w3 = w\<lparr>verification_cache := c2, spanner_reads := Suc (spanner_reads w)\<rparr>
      in case spanner_read_error rsp of
           Some e \<Rightarrow> (w3, Inl e)
         | None \<Rightarrow>
            (case select_latest_hash_record w d of
               None \<Rightarrow>
                 (w3\<lparr>verification_cache :=
                       set_cache c2 d (not_found_result current_hash) (Some current_hash)
                         (Some 300) (t_set rsp)\<rparr>,
                  Inr (not_found_result current_hash))
             | Some r \<Rightarrow>
                 (w3\<lparr>verification_cache :=
                       set_cache c2 d (found_result r current_hash) (Some current_hash)
                         (Some (if current_hash = dh_file_hash r then 3600 else 1800)) (t_set rsp)\<rparr>,
                  Inr (found_result r current_hash))))"
  using assms
  by (simp add: verify_try_def gate_open_def cache_miss_def Let_def case_prod_beta
           split: option.splits)

lemma max_row_None_iff: "max_row key rs = None \<longleftrightarrow> rs = []"
  by (cases rs) (auto split: option.splits)

lemma max_row_greatest:
  "max_row key rs = Some m \<Longrightarrow> m \<in> set rs \<and> (\<forall>r \<in> set rs. key r \<le> key m)"
proof (induction rs arbitrary: m)
  case Nil
  then show ?case by simp
next
  case (Cons r rs)
  show ?case
  proof (cases "max_row key rs")
    case None
    then have "rs = []" by (simp add: max_row_None_iff)
    with Cons.prems show ?thesis by simp
  next
    case (Some m')
    with Cons.IH have IH: "m' \<in> set rs" "\<forall>r \<in> set rs. key r \<le> key m'" by auto
    show ?thesis
    proof (cases "key r < key m'")
      case True
      with Some Cons.prems have "m = m'" by simp
      with IH True show ?thesis by auto
    next
      case False
      with Some Cons.prems have "m = r" by simp
      with IH False show ?thesis by (auto intro: order_trans)
    qed
  qed
qed

lemma select_latest_is_most_recent:
  assumes "select_latest_hash_record w d = Some m"
  shows "m \<in> set (DocumentHashes w) \<and> dh_document_id m = d
       \<and> (\<forall>r \<in> set (DocumentHashes w). dh_document_id r = d \<longrightarrow> dh_timestamp r \<le> dh_timestamp m)"
  using max_row_greatest [OF assms [unfolded select_latest_hash_record_def]] by auto

lemma select_latest_none:
  "select_latest_hash_record w d = None
     \<longleftrightarrow> (\<forall>r \<in> set (DocumentHashes w). dh_document_id r \<noteq> d)"
  by (auto simp: select_latest_hash_record_def max_row_None_iff filter_empty_conv)

lemma verify_follows_latest_record:
  assumes "gate_open w rsp d" and "cache_miss lib w rsp d C"
      and "spanner_read_error rsp = None"
  shows "(\<forall>r. select_latest_hash_record w d = Some r \<and> dh_file_hash r = sha256_hexdigest lib C \<longrightarrow>
            map_of (snd (verify_document_integrity lib rsp w d C)) ''verified'' = Some (PBool True)
          \<and> map_of (snd (verify_document_integrity lib rsp w d C)) ''status'' = Some (PStr ''VERIFIED''))
       \<and> (\<forall>r. select_latest_hash_record w d = Some r \<and> dh_file_hash r \<noteq> sha256_hexdigest lib C \<longrightarrow>
            map_of (snd (verify_document_integrity lib rsp w d C)) ''verified'' = Some (PBool False)
          \<and> map_of (snd (verify_document_integrity lib rsp w d C)) ''status'' = Some (PStr ''TAMPERED''))
       \<and> (select_latest_hash_record w d = None \<longrightarrow>
            map_of (snd (verify_document_integrity lib rsp w d C)) ''verified'' = Some (PBool False)
          \<and> map_of (snd (verify_document_integrity lib rsp w d C)) ''status'' = Some (PStr ''NOT_FOUND''))"
  using assms
  by (auto simp: verify_document_integrity_def verify_try_miss Let_def found_result_def
        not_found_result_def calculate_file_hash_def)

text \<open>
  C2. A record of the document is most recent when no record of the document has a
  greater \<open>timestamp\<close>. For a call that passes the throttle gate, misses the cache and
  reads the ledger without error: if the document has a record in \<open>DocumentHashes\<close>
  and its most recent records store the SHA-256 of the content, the result is
  verified/VERIFIED; if they store another digest, it is not verified/TAMPERED; if
  \<open>DocumentHashes\<close> holds no record of the document, it is not verified/NOT\_FOUND.
  (Where several records share the greatest timestamp the query may return any of them,
  so the statement asks the digest of all of them.)
\<close>

theorem verify_correct:
  assumes "gate_open w rsp d" and "cache_miss lib w rsp d C"
      and "spanner_read_error rsp = None"
  shows "((\<exists>r \<in> set (DocumentHashes w). dh_document_id r = d)
          \<and> (\<forall>r \<in> set (DocumentHashes w).
                dh_document_id r = d
                \<and> (\<forall>r' \<in> set (DocumentHashes w).
                      dh_document_id r' = d \<longrightarrow> dh_timestamp r' \<le> dh_timestamp r)
                \<longrightarrow> dh_file_hash r = sha256_hexdigest lib C)
          \<longrightarrow> map_of (snd (verify_document_integrity lib rsp w d C)) ''verified'' = Some (PBool True)
            \<and> map_of (snd (verify_document_integrity lib rsp w d C)) ''status''
                = Some (PStr ''VERIFIED''))
       \<and> ((\<exists>r \<in> set (DocumentHashes w). dh_document_id r = d)
          \<and> (\<forall>r \<in> set (DocumentHashes w).
                dh_document_id r = d
                \<and> (\<forall>r' \<in> set (DocumentHashes w).
                      dh_document_id r' = d \<longrightarrow> dh_timestamp r' \<le> dh_timestamp r)
                \<longrightarrow> dh_file_hash r \<noteq> sha256_hexdigest lib C)
          \<longrightarrow> map_of (snd (verify_document_integrity lib rsp w d C)) ''verified'' = Some (PBool False)
            \<and> map_of (snd (verify_document_integrity lib rsp w d C)) ''status''
                = Some (PStr ''TAMPERED''))
       \<and> ((\<forall>r \<in> set (DocumentHashes w). dh_document_id r \<noteq> d)
          \<longrightarrow> map_of (snd (verify_document_integrity lib rsp w d C)) ''verified'' = Some (PBool False)
            \<and> map_of (snd (verify_document_integrity lib rsp w d C)) ''status''
                = Some (PStr ''NOT_FOUND''))"
proof (intro conjI impI)
  note base = verify_follows_latest_record [OF assms]
  {
    assume a: "(\<exists>r \<in> set (DocumentHashes w). dh_document_id r = d)
          \<and> (\<forall>r \<in> set (DocumentHashes w).
                dh_document_id r = d
                \<and> (\<forall>r' \<in> set (DocumentHashes w).
                      dh_document_id r' = d \<longrightarrow> dh_timestamp r' \<le> dh_timestamp r)
                \<longrightarrow> dh_file_hash r = sha256_hexdigest lib C)"
    then have "select_latest_hash_record w d \<noteq> None" by (auto simp: select_latest_none)
    then obtain m where m: "select_latest_hash_record w d = Some m" by auto
    from select_latest_is_most_recent [OF m] a
    have "dh_file_hash m = sha256_hexdigest lib C" by blast
    with m base
    show "map_of (snd (verify_document_integrity lib rsp w d C)) ''verified'' = Some (PBool True)"
      and "map_of (snd (verify_document_integrity lib rsp w d C)) ''status''
                = Some (PStr ''VERIFIED'')"
      by blast+
  }
  {
    assume a: "(\<exists>r \<in> set (DocumentHashes w). dh_document_id r = d)
          \<and> (\<forall>r \<in> set (DocumentHashes w).
                dh_document_id r = d
                \<and> (\<forall>r' \<in> set (DocumentHashes w).
                      dh_document_id r' = d \<longrightarrow> dh_timestamp r' \<le> dh_timestamp r)
                \<longrightarrow> dh_file_hash r \<noteq> sha256_hexdigest lib C)"
    then have "select_latest_hash_record w d \<noteq> None" by (auto simp: select_latest_none)
    then obtain m where m: "select_latest_hash_record w d = Some m" by auto
    from select_latest_is_most_recent [OF m] a
    have "dh_file_hash m \<noteq> sha256_hexdigest lib C" by blast
    with m base
    show "map_of (snd (verify_document_integrity lib rsp w d C)) ''verified'' = Some (PBool False)"
      and "map_of (snd (verify_document_integrity lib rsp w d C)) ''status''
                = Some (PStr ''TAMPERED'')"
      by blast+
  }
  {
    assume "\<forall>r \<in> set (DocumentHashes w). dh_document_id r \<noteq> d"
    then have "select_latest_hash_record w d = None" by (simp add: select_latest_none)
    with base
    show "map_of (snd (verify_document_integrity lib rsp w d C)) ''verified'' = Some (PBool False)"
      and "map_of (snd (verify_document_integrity lib rsp w d C)) ''status''
                = Some (PStr ''NOT_FOUND'')"
      by blast+
  }
qed

theorem verify_correct_witness:
  "map (\<lambda>r. (dh_document_id r, dh_file_hash r, dh_timestamp r)) (DocumentHashes rerecorded_world)
     = [(''doc-1'', ''2cf24dba5fb0a30e26e83b2ac5b9e29e1b161e5c1fa7425e73043362938b9824'', 1000),
        (''doc-1'', ''82e35a63ceba37e9646434c5dd412ea577147f1e4a41ccde1614253187e3dbf9'', 2000)]
   \<and> map_of (snd (verify_document_integrity example_library example_responses rerecorded_world
                    ''doc-1'' ''goodbye'')) ''verified'' = Some (PBool True)
   \<and> map_of (snd (verify_document_integrity example_library example_responses rerecorded_world
                    ''doc-1'' ''goodbye'')) ''status'' = Some (PStr ''VERIFIED'')
   \<and> map_of (snd (verify_document_integrity example_library example_responses rerecorded_world
                    ''doc-1'' ''hello'')) ''status'' = Some (PStr ''TAMPERED'')
   \<and> map_of (snd (verify_document_integrity example_library example_responses rerecorded_world
                    ''doc-2'' ''anything'')) ''status'' = Some (PStr ''NOT_FOUND'')
   \<and> map (\<lambda>r. (dh_file_hash r, dh_timestamp r)) (DocumentHashes unordered_world)
     = [(''82e35a63ceba37e9646434c5dd412ea577147f1e4a41ccde1614253187e3dbf9'', 200),
        (''2cf24dba5fb0a30e26e83b2ac5b9e29e1b161e5c1fa7425e73043362938b9824'', 100)]
   \<and> map_of (snd (verify_document_integrity example_library example_responses unordered_world
                    ''doc-1'' ''goodbye'')) ''status'' = Some (PStr ''VERIFIED'')
   \<and> map_of (snd (verify_document_integrity example_library example_responses unordered_world
                    ''doc-1'' ''hello'')) ''status'' = Some (PStr ''TAMPERED'')"
proof -
  let ?W = rerecorded_world and ?U = unordered_world
  have rows: "map (\<lambda>r. (dh_document_id r, dh_file_hash r, dh_timestamp r)) (DocumentHashes ?W)
     = [(''doc-1'', ''2cf24dba5fb0a30e26e83b2ac5b9e29e1b161e5c1fa7425e73043362938b9824'', 1000),
        (''doc-1'', ''82e35a63ceba37e9646434c5dd412ea577147f1e4a41ccde1614253187e3dbf9'', 2000)]"
    by code_simp
  have rowsU: "map (\<lambda>r. (dh_file_hash r, dh_timestamp r)) (DocumentHashes ?U)
     = [(''82e35a63ceba37e9646434c5dd412ea577147f1e4a41ccde1614253187e3dbf9'', 200),
        (''2cf24dba5fb0a30e26e83b2ac5b9e29e1b161e5c1fa7425e73043362938b9824'', 100)]"
    by code_simp
  have g1: "gate_open ?W example_responses ''doc-1''" by code_simp
  have g2: "gate_open ?W example_responses ''doc-2''" by code_simp
  have g3: "gate_open ?U example_responses ''doc-1''" by code_simp
  have m1: "cache_miss example_library ?W example_responses ''doc-1'' ''goodbye''" by code_simp
  have m2: "cache_miss example_library ?W example_responses ''doc-1'' ''hello''" by code_simp
  have m3: "cache_miss example_library ?W example_responses ''doc-2'' ''anything''" by code_simp
  have m4: "cache_miss example_library ?U example_responses ''doc-1'' ''goodbye''" by code_simp
  have m5: "cache_miss example_library ?U example_responses ''doc-1'' ''hello''" by code_simp
  have ok: "spanner_read_error example_responses = None" by code_simp
  have h1: "(\<exists>r \<in> set (DocumentHashes ?W). dh_document_id r = ''doc-1'')
          \<and> (\<forall>r \<in> set (DocumentHashes ?W).
                dh_document_id r = ''doc-1''
                \<and> (\<forall>r' \<in> set (DocumentHashes ?W).
                      dh_document_id r' = ''doc-1'' \<longrightarrow> dh_timestamp r' \<le> dh_timestamp r)
                \<longrightarrow> dh_file_hash r = sha256_hexdigest example_library ''goodbye'')"
    by code_simp
  have h2: "(\<exists>r \<in> set (DocumentHashes ?W). dh_document_id r = ''doc-1'')
          \<and> (\<forall>r \<in> set (DocumentHashes ?W).
                dh_document_id r = ''doc-1''
                \<and> (\<forall>r' \<in> set (DocumentHashes ?W).
                      dh_document_id r' = ''doc-1'' \<longrightarrow> dh_timestamp r' \<le> dh_timestamp r)
                \<longrightarrow> dh_file_hash r \<noteq> sha256_hexdigest example_library ''hello'')"
    by code_simp
  have h3: "\<forall>r \<in> set (DocumentHashes ?W). dh_document_id r \<noteq> ''doc-2''" by code_simp
  have h4: "(\<exists>r \<in> set (DocumentHashes ?U). dh_document_id r = ''doc-1'')
          \<and> (\<forall>r \<in> set (DocumentHashes ?U).
                dh_document_id r = ''doc-1''
                \<and> (\<forall>r' \<in> set (DocumentHashes ?U).
                      dh_document_id r' = ''doc-1'' \<longrightarrow> dh_timestamp r' \<le> dh_timestamp r)
                \<longrightarrow> dh_file_hash r = sha256_hexdigest example_library ''goodbye'')"
    by code_simp
  have h5: "(\<exists>r \<in> set (DocumentHashes ?U). dh_document_id r = ''doc-1'')
          \<and> (\<forall>r \<in> set (DocumentHashes ?U).
                dh_document_id r = ''doc-1''
                \<and> (\<forall>r' \<in> set (DocumentHashes ?U).
                      dh_document_id r' = ''doc-1'' \<longrightarrow> dh_timestamp r' \<le> dh_timestamp r)
                \<longrightarrow> dh_file_hash r \<noteq> sha256_hexdigest example_library ''hello'')"
    by code_simp
  from verify_correct [OF g1 m1 ok] h1
  have a: "map_of (snd (verify_document_integrity example_library example_responses ?W
                    ''doc-1'' ''goodbye'')) ''verified'' = Some (PBool True)"
          "map_of (snd (verify_document_integrity example_library example_responses ?W
                    ''doc-1'' ''goodbye'')) ''status'' = Some (PStr ''VERIFIED'')"
    by blast+
  from verify_correct [OF g1 m2 ok] h2
  have b: "map_of (snd (verify_document_integrity example_library example_responses ?W
                    ''doc-1'' ''hello'')) ''status'' = Some (PStr ''TAMPERED'')"
    by blast
  from verify_correct [OF g2 m3 ok] h3
  have c: "map_of (snd (verify_document_integrity example_library example_responses ?W
                    ''doc-2'' ''anything'')) ''status'' = Some (PStr ''NOT_FOUND'')"
    by blast
  from verify_correct [OF g3 m4 ok] h4
  have d: "map_of (snd (verify_document_integrity example_library example_responses ?U
                    ''doc-1'' ''goodbye'')) ''status'' = Some (PStr ''VERIFIED'')"
    by blast
  from verify_correct [OF g3 m5 ok] h5
  have e: "map_of (snd (verify_document_integrity example_library example_responses ?U
                    ''doc-1'' ''hello'')) ''status'' = Some (PStr ''TAMPERED'')"
    by blast
  from rows rowsU a b c d e show ?thesis by blast
qed


lemma get_cache_entries:
  "map_of (cache (fst (get_cache c d h t))) k = Some v \<Longrightarrow> map_of (cache c) k = Some v"
  by (auto simp: get_cache_def Let_def delete_conv split: option.splits if_splits)

lemma is_throttled_cache [simp]: "cache (fst (is_throttled c d t)) = cache c"
  by (simp add: is_throttled_def Let_def)

lemma verify_try_raises:
  assumes "snd (verify_try lib rsp w d C) = Inl e"
  shows "fst (verify_try lib rsp w d C)
           = w\<lparr>verification_cache :=
                  fst (get_cache (fst (is_throttled (verification_cache w) d (t_is_throttled rsp)))
                         d (Some (calculate_file_hash lib C)) (t_get rsp)),
                spanner_reads := Suc (spanner_reads w)\<rparr>"
  using assms
  by (auto simp: verify_try_def Let_def case_prod_beta split: option.splits if_splits)

lemma verify_fst:
  "fst (verify_document_integrity lib rsp w d C) = fst (verify_try lib rsp w d C)"
  by (simp add: verify_document_integrity_def split: prod.splits sum.splits)

text \<open>
  C8. When the body of \<open>verify_document_integrity\<close> raises (in the model: the Spanner
  read fails), the operation returns the ERROR dictionary with \<open>verified\<close> false, and
  every entry of the cache afterwards was already there before, so the ERROR result was
  not stored.
\<close>

theorem verify_error_degrades:
  assumes "snd (verify_try lib rsp w d C) = Inl e"
  shows "snd (verify_document_integrity lib rsp w d C) = error_result e
       \<and> map_of (error_result e) ''verified'' = Some (PBool False)
       \<and> map_of (error_result e) ''status'' = Some (PStr ''ERROR'')
       \<and> (\<forall>k v. map_of (cache (verification_cache
                       (fst (verify_document_integrity lib rsp w d C)))) k = Some v
                  \<longrightarrow> map_of (cache (verification_cache w)) k = Some v)"
proof -
  have 1: "snd (verify_document_integrity lib rsp w d C) = error_result e"
    using assms by (auto simp: verify_document_integrity_def split: prod.splits sum.splits)
  have 2: "map_of (error_result e) ''verified'' = Some (PBool False)"
          "map_of (error_result e) ''status'' = Some (PStr ''ERROR'')"
    by (simp_all add: error_result_def)
  have 3: "map_of (cache (verification_cache w)) k = Some v"
    if "map_of (cache (verification_cache (fst (verify_document_integrity lib rsp w d C)))) k
          = Some v" for k v
  proof -
    have "cache (verification_cache (fst (verify_document_integrity lib rsp w d C))) =
            cache (fst (get_cache (fst (is_throttled (verification_cache w) d (t_is_throttled rsp)))
                            d (Some (calculate_file_hash lib C)) (t_get rsp)))"
      by (simp add: verify_fst verify_try_raises [OF assms])
    with that get_cache_entries show ?thesis
      by (metis is_throttled_cache)
  qed
  from 1 2 3 show ?thesis by blast
qed

theorem verify_error_degrades_witness:
  "snd (verify_try example_library failing_responses after_first_verify ''doc-1'' ''goodbye'')
     = Inl (Exception ''503 unavailable'')
   \<and> snd (verify_document_integrity example_library failing_responses after_first_verify
             ''doc-1'' ''goodbye'')
       = error_result (Exception ''503 unavailable'')
   \<and> map fst (cache (verification_cache after_first_verify)) = [''verify:doc-1:2cf24dba5fb0a30e'']
   \<and> map fst (cache (verification_cache
                 (fst (verify_document_integrity example_library failing_responses
                         after_first_verify ''doc-1'' ''goodbye''))))
       = [''verify:doc-1:2cf24dba5fb0a30e'']"
proof -
  have t: "snd (verify_try example_library failing_responses after_first_verify ''doc-1'' ''goodbye'')
             = Inl (Exception ''503 unavailable'')"
    by code_simp
  have c: "map fst (cache (verification_cache after_first_verify))
             = [''verify:doc-1:2cf24dba5fb0a30e'']"
    by code_simp
  have c': "map fst (cache (verification_cache
                 (fst (verify_document_integrity example_library failing_responses
                         after_first_verify ''doc-1'' ''goodbye''))))
             = [''verify:doc-1:2cf24dba5fb0a30e'']"
    by code_simp
  show ?thesis
    using verify_error_degrades [OF t] t c c' by blast
qed

lemma verify_kms_unchanged:
  "kms_requests (fst (verify_document_integrity lib rsp w d C)) = kms_requests w"
  by (simp add: verify_document_integrity_def verify_try_def Let_def case_prod_beta
        split: option.splits sum.splits prod.splits)

text \<open>
  C10. When the call reaches a stored hash record, \<open>signature_valid\<close> is true exactly
  when the signature column of that record is not null, and the call sends no request to
  the Key Service.
\<close>

theorem signature_valid_is_presence:
  assumes "gate_open w rsp d" and "cache_miss lib w rsp d C"
      and "spanner_read_error rsp = None" and "select_latest_hash_record w d = Some r"
  shows "map_of (snd (verify_document_integrity lib rsp w d C)) ''signature_valid''
           = Some (PBool (dh_signature r \<noteq> None))
       \<and> kms_requests (fst (verify_document_integrity lib rsp w d C)) = kms_requests w"
  using assms
  by (simp add: verify_kms_unchanged)
     (simp add: verify_document_integrity_def verify_try_miss Let_def found_result_def)


theorem signature_valid_is_presence_witness:
  "gate_open forged_world example_responses ''doc-9''
   \<and> cache_miss example_library forged_world example_responses ''doc-9'' ''hello''
   \<and> map_option dh_signature (select_latest_hash_record forged_world ''doc-9'')
       = Some (Some ''not a signature'')
   \<and> map_of (snd (verify_document_integrity example_library example_responses forged_world
                    ''doc-9'' ''hello'')) ''signature_valid'' = Some (PBool True)
   \<and> kms_requests (fst (verify_document_integrity example_library example_responses forged_world
                    ''doc-9'' ''hello'')) = []"
proof -
  have g: "gate_open forged_world example_responses ''doc-9''" by code_simp
  have m: "cache_miss example_library forged_world example_responses ''doc-9'' ''hello''"
    by code_simp
  have ok: "spanner_read_error example_responses = None" by code_simp
  have s: "map_option dh_signature (select_latest_hash_record forged_world ''doc-9'')
             = Some (Some ''not a signature'')" by code_simp
  then obtain r where r: "select_latest_hash_record forged_world ''doc-9'' = Some r"
      "dh_signature r = Some ''not a signature''" by auto
  have k: "kms_requests forged_world = []" by code_simp
  show ?thesis
    using signature_valid_is_presence [OF g m ok r(1)] g m s r(2) k by simp
qed

text \<open>
  The throttled branch looks the result up without the content hash, while every result
  is stored with it: the two keys of one document differ, and a throttled call whose
  document has no entry under the bare key returns the THROTTLED dictionary without
  reading the ledger.
\<close>

lemma stored_key_differs:
  "h \<noteq> [] \<Longrightarrow> generate_cache_key d (Some h) \<noteq> generate_cache_key d None"
  by (simp add: generate_cache_key_def)

lemma throttled_fallback_misses:
  assumes "snd (is_throttled (verification_cache w) d (t_is_throttled rsp))"
      and "map_of (cache (verification_cache w)) (generate_cache_key d None) = None"
  shows "snd (verify_document_integrity lib rsp w d C) = throttled_result
       \<and> spanner_reads (fst (verify_document_integrity lib rsp w d C)) = spanner_reads w"
proof -
  from assms(1) have same: "fst (is_throttled (verification_cache w) d (t_is_throttled rsp))
                              = verification_cache w"
    by (auto simp: is_throttled_def Let_def split: if_splits)
  with assms(2) have "get_cache (fst (is_throttled (verification_cache w) d (t_is_throttled rsp)))
                        d None (t_get rsp) = (verification_cache w, None)"
    by (simp add: get_cache_def)
  with assms(1) show ?thesis
    by (simp add: verify_document_integrity_def verify_try_def Let_def case_prod_beta truthy_def)
qed

text \<open>
  C4, at the failing input. The first verification of \<open>doc-1\<close> stored its result under
  \<open>verify:doc-1:2cf24dba5fb0a30e\<close>; the second call, half a second later with the same
  content, is throttled, looks up \<open>verify:doc-1\<close>, finds nothing and returns the
  THROTTLED dictionary. It reads nothing from the ledger.
\<close>

theorem verify_second_call_throttled:
  "map fst (cache (verification_cache after_first_verify)) = [''verify:doc-1:2cf24dba5fb0a30e'']
   \<and> snd (is_throttled (verification_cache after_first_verify) ''doc-1'' (2001 / 2))
   \<and> snd (verify_document_integrity example_library second_responses after_first_verify
             ''doc-1'' ''hello'') = throttled_result
   \<and> spanner_reads (fst (verify_document_integrity example_library second_responses
             after_first_verify ''doc-1'' ''hello'')) = spanner_reads after_first_verify"
  by code_simp


section \<open>Properties of the hash chain\<close>

lemma max_row_increasing:
  "sorted_wrt (\<lambda>a b. key a < key b) rs \<Longrightarrow> rs \<noteq> [] \<Longrightarrow> max_row key rs = Some (last rs)"
proof (induction rs)
  case Nil
  then show ?case by simp
next
  case (Cons r rs)
  show ?case
  proof (cases "rs = []")
    case True
    then show ?thesis by simp
  next
    case False
    with Cons have "max_row key rs = Some (last rs)" by simp
    moreover from False Cons.prems have "key r < key (last rs)" by simp
    ultimately show ?thesis using False by simp
  qed
qed

lemma chain_linked_latest:
  assumes "chain_linked lib bs"
  shows "max_row hc_block_number bs = (if bs = [] then None else Some (last bs))"
proof (cases "bs = []")
  case True
  then show ?thesis by simp
next
  case False
  have "sorted_wrt (\<lambda>a b. hc_block_number a < hc_block_number b) bs"
    using assms by (simp add: sorted_wrt_iff_nth_less chain_linked_def)
  with False show ?thesis by (simp add: max_row_increasing)
qed

lemma chain_linked_snoc:
  assumes "chain_linked lib bs"
      and "hc_block_number b = int (length bs)"
      and "hc_previous_hash b = (if bs = [] then None else Some (hc_current_hash (last bs)))"
      and "hc_current_hash b = sha256_hexdigest lib (encode_utf8
              (block_data (hc_block_number b) (hc_previous_hash b) (hc_merkle_root b)))"
  shows "chain_linked lib (bs @ [b])"
  unfolding chain_linked_def
proof (intro allI impI)
  fix k assume k: "k < length (bs @ [b])"
  show "hc_block_number ((bs @ [b]) ! k) = int k
      \<and> hc_previous_hash ((bs @ [b]) ! k)
          = (if k = 0 then None else Some (hc_current_hash ((bs @ [b]) ! (k - 1))))
      \<and> hc_current_hash ((bs @ [b]) ! k)
          = sha256_hexdigest lib (encode_utf8
              (block_data (hc_block_number ((bs @ [b]) ! k)) (hc_previous_hash ((bs @ [b]) ! k))
                 (hc_merkle_root ((bs @ [b]) ! k))))"
  proof (cases "k < length bs")
    case True
    then have "(bs @ [b]) ! k = bs ! k" "(bs @ [b]) ! (k - 1) = bs ! (k - 1)"
      by (simp_all add: nth_append)
    with True assms(1) show ?thesis by (simp add: chain_linked_def)
  next
    case False
    with k have kk: "k = length bs" by simp
    then have 1: "(bs @ [b]) ! k = b" by simp
    have 2: "bs \<noteq> [] \<Longrightarrow> (bs @ [b]) ! (k - 1) = last bs"
      using kk by (simp add: nth_append last_conv_nth)
    show ?thesis using assms(2-4) kk 1 2 by auto
  qed
qed

lemma add_to_hash_chain_linked:
  assumes "chain_linked lib (HashChain w)"
  shows "chain_linked lib (HashChain (fst (add_to_hash_chain lib rsp w hs)))"
proof -
  let ?bs = "HashChain w"
  have latest: "select_latest_block (w\<lparr>spanner_reads := Suc (spanner_reads w)\<rparr>)
                  = (if ?bs = [] then None else Some (last ?bs))"
    using chain_linked_latest [OF assms] by (simp add: select_latest_block_def)
  show ?thesis
  proof (cases "?bs = []")
    case True
    with latest assms show ?thesis
      by (auto simp: add_to_hash_chain_def Let_def case_prod_beta asymmetric_sign_def
            insert_HashChain_def chain_linked_def
          split: option.splits sum.splits)
  next
    case False
    then obtain m where m: "length ?bs = Suc m" by (cases ?bs) auto
    with assms have "hc_block_number (?bs ! m) = int m"
      by (simp add: chain_linked_def)
    with False m have n: "hc_block_number (last ?bs) + 1 = int (length ?bs)"
      by (simp add: last_conv_nth)
    show ?thesis
      using latest False assms n
      by (auto simp: add_to_hash_chain_def Let_def case_prod_beta asymmetric_sign_def
            insert_HashChain_def
          split: option.splits sum.splits intro!: chain_linked_snoc)
  qed
qed

lemma append_blocks_linked:
  "chain_linked lib (HashChain w) \<Longrightarrow> chain_linked lib (HashChain (append_blocks lib w calls))"
  by (induction calls arbitrary: w) (auto simp: add_to_hash_chain_linked)

text \<open>
  C1. Starting from an empty \<open>HashChain\<close> table, after any sequence of sequential
  appends the stored blocks, in insertion order, are numbered 0, 1, 2, ...; block 0 has no
  previous hash, block \<open>k\<close> stores the current hash of block \<open>k - 1\<close> as its previous
  hash, and every stored current hash is the SHA-256 of
  \<open>"{block_number}:{previous_hash}:{merkle_root}"\<close> formed from the stored fields (a
  missing previous hash prints as \<open>None\<close>).
\<close>

theorem chain_continuity:
  assumes "HashChain w = []"
  shows "\<forall>k < length (HashChain (append_blocks lib w calls)).
           hc_block_number (HashChain (append_blocks lib w calls) ! k) = int k
         \<and> hc_previous_hash (HashChain (append_blocks lib w calls) ! k)
             = (if k = 0 then None
                else Some (hc_current_hash (HashChain (append_blocks lib w calls) ! (k - 1))))
         \<and> hc_current_hash (HashChain (append_blocks lib w calls) ! k)
             = sha256_hexdigest lib (encode_utf8
                 (str_int (hc_block_number (HashChain (append_blocks lib w calls) ! k)) @ '':''
                  @ str_opt (hc_previous_hash (HashChain (append_blocks lib w calls) ! k)) @ '':''
                  @ hc_merkle_root (HashChain (append_blocks lib w calls) ! k)))"
proof -
  have "chain_linked lib (HashChain w)" using assms by (simp add: chain_linked_def)
  then have "chain_linked lib (HashChain (append_blocks lib w calls))"
    by (rule append_blocks_linked)
  then show ?thesis by (simp add: chain_linked_def block_data_def)
qed


theorem chain_continuity_witness:
  "HashChain example_world = []
   \<and> map (\<lambda>b. (hc_block_number b, hc_previous_hash b, hc_current_hash b))
        (HashChain (append_blocks example_library example_world example_calls))
     = [(0, None, ''345962fdd02111d18bb0af30bc31a41b2ba714ed88896fb0398c0355458b772a''),
        (1, Some ''345962fdd02111d18bb0af30bc31a41b2ba714ed88896fb0398c0355458b772a'',
         ''d061749327f3c6437438f55dd36b855265a5525c19d11dcaaf8c210a04293cdb'')]
   \<and> hc_previous_hash (HashChain (append_blocks example_library example_world example_calls) ! 1)
       = Some (hc_current_hash
                 (HashChain (append_blocks example_library example_world example_calls) ! 0))"
proof -
  have e: "HashChain example_world = []" by code_simp
  have v: "map (\<lambda>b. (hc_block_number b, hc_previous_hash b, hc_current_hash b))
        (HashChain (append_blocks example_library example_world example_calls))
     = [(0, None, ''345962fdd02111d18bb0af30bc31a41b2ba714ed88896fb0398c0355458b772a''),
        (1, Some ''345962fdd02111d18bb0af30bc31a41b2ba714ed88896fb0398c0355458b772a'',
         ''d061749327f3c6437438f55dd36b855265a5525c19d11dcaaf8c210a04293cdb'')]"
    by code_simp
  have "length (map (\<lambda>b. (hc_block_number b, hc_previous_hash b, hc_current_hash b))
        (HashChain (append_blocks example_library example_world example_calls))) = 2"
    by (simp only: v) simp
  then have l: "1 < length (HashChain (append_blocks example_library example_world example_calls))"
    by simp
  from chain_continuity [OF e, of example_library example_calls] l
  have "hc_previous_hash (HashChain (append_blocks example_library example_world example_calls) ! 1)
       = (if (1::nat) = 0 then None else Some (hc_current_hash
                 (HashChain (append_blocks example_library example_world example_calls) ! (1 - 1))))"
    by blast
  then have "hc_previous_hash (HashChain (append_blocks example_library example_world example_calls) ! 1)
       = Some (hc_current_hash
                 (HashChain (append_blocks example_library example_world example_calls) ! 0))"
    by simp
  with e v show ?thesis by blast
qed


section \<open>Properties of hash records\<close>

lemma add_to_hash_chain_requests:
  "\<exists>rest. kms_requests (fst (add_to_hash_chain lib rsp w hs)) = kms_requests w @ rest"
  by (auto simp: add_to_hash_chain_def Let_def case_prod_beta asymmetric_sign_def
        insert_HashChain_def split: option.splits sum.splits)

lemma fst_case_sum: "fst (case x of Inl e \<Rightarrow> (a, f e) | Inr c \<Rightarrow> (a, g c)) = a"
  by (cases x) auto

lemma create_requests:
  "\<exists>rest. kms_requests (fst (create_document_hash_record lib rsp w document_id content
                               extracted_text user_id metadata))
     = kms_requests w
       @ KmsAsymmetricSign
           (get_signing_key_name lib (service w) @ ''/cryptoKeyVersions/1'')
           (sha256_digest lib (hash_to_sign (calculate_file_hash lib content)
              (calculate_content_hash lib extracted_text) document_id))
       # rest"
proof -
  let ?name = "get_signing_key_name lib (service w) @ ''/cryptoKeyVersions/1''"
  let ?digest = "sha256_digest lib (hash_to_sign (calculate_file_hash lib content)
              (calculate_content_hash lib extracted_text) document_id)"
  let ?w' = "fst (create_document_hash_record lib rsp w document_id content
                               extracted_text user_id metadata)"
  show ?thesis
  proof (cases "kms_asymmetric_sign rsp ?name ?digest")
    case (Inl e)
    then have "kms_requests ?w' = kms_requests w @ [KmsAsymmetricSign ?name ?digest]"
      by (simp add: create_document_hash_record_def Let_def case_prod_beta asymmetric_sign_def)
    then show ?thesis by simp
  next
    case (Inr sig)
    show ?thesis
    proof (cases "spanner_insert_error rsp ''DocumentHashes''")
      case (Some e)
      with Inr have "kms_requests ?w' = kms_requests w @ [KmsAsymmetricSign ?name ?digest]"
        by (simp add: create_document_hash_record_def Let_def case_prod_beta asymmetric_sign_def
              insert_DocumentHashes_def)
      then show ?thesis by simp
    next
      case None
      with Inr obtain w2 where w2: "?w' = fst (add_to_hash_chain lib rsp w2 [uuid_hash_id rsp])"
          "kms_requests w2 = kms_requests w @ [KmsAsymmetricSign ?name ?digest]"
        by (simp add: create_document_hash_record_def Let_def case_prod_beta asymmetric_sign_def
              insert_DocumentHashes_def fst_case_sum)
      obtain rest where "kms_requests (fst (add_to_hash_chain lib rsp w2 [uuid_hash_id rsp]))
                           = kms_requests w2 @ rest"
        using add_to_hash_chain_requests by blast
      with w2 show ?thesis by simp
    qed
  qed
qed

text \<open>
  C5. Every call of \<open>create_document_hash_record\<close> first sends the Key Service one
  signature request: its key reference is the signing key name of the service followed by
  \<open>/cryptoKeyVersions/1\<close>, and its digest is the SHA-256 of the UTF-8 bytes of
  \<open>hex(SHA256(content)) + ":" + hex(SHA256(UTF-8(extracted_text))) + ":" + document_id\<close>.
  What follows in the trace is at most the signature request of the chain block.
\<close>

theorem signing_payload_framing:
  "\<exists>rest. kms_requests (fst (create_document_hash_record lib rsp w document_id content
                               extracted_text user_id metadata))
     = kms_requests w
       @ KmsAsymmetricSign
           (get_signing_key_name lib (service w) @ ''/cryptoKeyVersions/1'')
           (sha256_digest lib (encode_utf8
              (sha256_hexdigest lib content @ '':''
               @ sha256_hexdigest lib (encode_utf8 extracted_text) @ '':'' @ document_id)))
       # rest"
  using create_requests [of lib rsp w document_id content extracted_text user_id metadata]
  by (simp add: hash_to_sign_def calculate_file_hash_def calculate_content_hash_def)


section \<open>Properties of the envelope codec\<close>

lemma encrypt_success:
  assumes "encrypt_document lib rsp w content metadata = (w', Inr (blob_name, emd))"
  shows "\<exists>c. kms_encrypt rsp (get_encryption_key_name lib (service w)) (generated_dek rsp) = Inr c
           \<and> bucket_blobs w' blob_name
               = Some \<lparr>blob_content = fernet_encrypt lib (generated_dek rsp) (fernet_iv rsp) content,
                       blob_metadata = blob_attributes lib metadata
                          (get_encryption_key_name lib (service w)) content
                          (fernet_encrypt lib (generated_dek rsp) (fernet_iv rsp) content) c\<rparr>
           \<and> get_encryption_key_name lib (service w')
               = get_encryption_key_name lib (service w)"
  using assms
  by (auto simp: encrypt_document_def Let_def case_prod_beta encrypt_kms_def
        upload_from_string_def get_encryption_key_name_def
      split: sum.splits option.splits prod.splits if_splits)

text \<open>
  C3. If \<open>encrypt_document\<close> returned a blob name for content \<open>C\<close>, then
  \<open>decrypt_document\<close> of that blob name, in the state \<open>encrypt_document\<close> left,
  returns exactly \<open>C\<close>, provided the Key Service unwraps what it wrapped, the Blob
  Store read succeeds, and Fernet and base64 invert themselves.
\<close>

theorem envelope_round_trip:
  assumes enc: "encrypt_document lib rsp w content metadata = (w', Inr (blob_name, emd))"
      and lib: "library_round_trips lib"
      and kms: "unwrap_inverts_wrap rsp rsp'"
      and store: "gcs_read_error rsp' = None"
  shows "snd (decrypt_document lib rsp' w' blob_name) = Inr content"
proof -
  from encrypt_success [OF enc] obtain c where
    c: "kms_encrypt rsp (get_encryption_key_name lib (service w)) (generated_dek rsp) = Inr c"
    and blob: "bucket_blobs w' blob_name
               = Some \<lparr>blob_content = fernet_encrypt lib (generated_dek rsp) (fernet_iv rsp) content,
                       blob_metadata = blob_attributes lib metadata
                          (get_encryption_key_name lib (service w)) content
                          (fernet_encrypt lib (generated_dek rsp) (fernet_iv rsp) content) c\<rparr>"
    and name: "get_encryption_key_name lib (service w')
               = get_encryption_key_name lib (service w)"
    by blast
  from kms c have unwrap: "kms_decrypt rsp' (get_encryption_key_name lib (service w)) c
                             = Inr (generated_dek rsp)" and ne: "c \<noteq> []"
    by (simp_all add: unwrap_inverts_wrap_def)
  from lib ne have b64: "b64encode lib c \<noteq> []" "b64decode lib (b64encode lib c) = Inr c"
    by (simp_all add: library_round_trips_def)
  from lib have fernet: "fernet_decrypt lib (generated_dek rsp)
            (fernet_encrypt lib (generated_dek rsp) (fernet_iv rsp) content) = Inr content"
    by (simp add: library_round_trips_def)
  show ?thesis
    using store blob name unwrap b64 fernet
    by (simp add: decrypt_document_def blob_attributes_def decrypt_kms_def Let_def)
qed

theorem envelope_round_trip_witness:
  "library_round_trips example_library
   \<and> unwrap_inverts_wrap example_responses example_responses
   \<and> gcs_read_error example_responses = None
   \<and> map_sum id fst (snd (encrypt_document example_library example_responses example_world
                             ''hello'' [])) = Inr ''encrypted/blob-1.enc''
   \<and> snd (decrypt_document example_library example_responses
             (fst (encrypt_document example_library example_responses example_world ''hello'' []))
             ''encrypted/blob-1.enc'') = Inr ''hello''"
proof -
  have l: "library_round_trips example_library"
    by (simp add: library_round_trips_def example_library_def)
  have k: "unwrap_inverts_wrap example_responses example_responses"
    by (auto simp: unwrap_inverts_wrap_def example_responses_def)
  have g: "gcs_read_error example_responses = None" by code_simp
  have s: "map_sum id fst (snd (encrypt_document example_library example_responses example_world
                             ''hello'' [])) = Inr ''encrypted/blob-1.enc''"
    by code_simp
  then obtain emd where "snd (encrypt_document example_library example_responses example_world
                             ''hello'' []) = Inr (''encrypted/blob-1.enc'', emd)"
    by (cases "snd (encrypt_document example_library example_responses example_world ''hello'' [])")
       auto
  then have enc: "encrypt_document example_library example_responses example_world ''hello'' []
        = (fst (encrypt_document example_library example_responses example_world ''hello'' []),
           Inr (''encrypted/blob-1.enc'', emd))"
    by (simp add: prod_eq_iff)
  show ?thesis
    using envelope_round_trip [OF enc l k g] l k g s by blast
qed

lemma encrypt_ledger_unchanged:
  "DocumentHashes (fst (encrypt_document lib rsp w content metadata)) = DocumentHashes w
   \<and> HashChain (fst (encrypt_document lib rsp w content metadata)) = HashChain w"
  by (simp add: encrypt_document_def Let_def case_prod_beta encrypt_kms_def
        upload_from_string_def split: sum.splits option.splits prod.splits)

text \<open>
  C7, as stated, fails when the storage credentials cannot be obtained again: the upload
  is attempted once, no retry follows, and the original error is raised.
\<close>

theorem encrypt_single_attempt_counterexample:
  "upload_error no_credentials_responses = Some (Exception ''upload failed'')
   \<and> upload_attempts (fst (encrypt_document example_library no_credentials_responses
                             example_world ''hello'' [])) = [''encrypted/blob-1.enc'']
   \<and> snd (encrypt_document example_library no_credentials_responses example_world ''hello'' [])
       = Inl (Exception ''upload failed'')"
  by code_simp

text \<open>
  C7, amended. When the first upload fails: if fresh credentials are obtained, the storage
  client is replaced and exactly one more upload is attempted; the operation completes
  normally when that retry succeeds and raises the original upload error when it fails.
  If no credentials are obtained, no retry is attempted and the original upload error is
  raised. In every case the two ledger tables are unchanged.
\<close>

theorem encrypt_retry_policy:
  assumes wrapped: "kms_encrypt rsp (get_encryption_key_name lib (service w)) (generated_dek rsp)
                      = Inr encrypted_dek"
      and failed: "upload_error rsp = Some e"
  shows "(working_storage_credentials rsp = None \<longrightarrow>
            upload_attempts (fst (encrypt_document lib rsp w content metadata))
              = upload_attempts w @ [''encrypted/'' @ uuid_blob rsp @ ''.enc'']
          \<and> snd (encrypt_document lib rsp w content metadata) = Inl e)
       \<and> (\<forall>credentials project. working_storage_credentials rsp = Some (credentials, project) \<longrightarrow>
            upload_attempts (fst (encrypt_document lib rsp w content metadata))
              = upload_attempts w @ [''encrypted/'' @ uuid_blob rsp @ ''.enc'',
                                     ''encrypted/'' @ uuid_blob rsp @ ''.enc'']
          \<and> storage_client (service (fst (encrypt_document lib rsp w content metadata)))
              = (project, credentials)
          \<and> (retry_upload_error rsp \<noteq> None \<longrightarrow>
                snd (encrypt_document lib rsp w content metadata) = Inl e)
          \<and> (retry_upload_error rsp = None \<longrightarrow>
                (\<exists>emd. snd (encrypt_document lib rsp w content metadata)
                         = Inr (''encrypted/'' @ uuid_blob rsp @ ''.enc'', emd))
                \<and> map_option blob_content
                     (bucket_blobs (fst (encrypt_document lib rsp w content metadata))
                        (''encrypted/'' @ uuid_blob rsp @ ''.enc''))
                   = Some (fernet_encrypt lib (generated_dek rsp) (fernet_iv rsp) content)))
       \<and> DocumentHashes (fst (encrypt_document lib rsp w content metadata)) = DocumentHashes w
       \<and> HashChain (fst (encrypt_document lib rsp w content metadata)) = HashChain w"
  using assms
  by (auto simp: encrypt_document_def Let_def case_prod_beta encrypt_kms_def
        upload_from_string_def split: option.splits)

theorem encrypt_retry_policy_witness:
  "upload_error retry_fails_responses = Some (Exception ''upload failed'')
   \<and> retry_upload_error retry_fails_responses = Some (Exception ''retry failed'')
   \<and> upload_attempts (fst (encrypt_document example_library retry_fails_responses example_world
                             ''hello'' []))
       = upload_attempts example_world @ [''encrypted/'' @ uuid_blob retry_fails_responses @ ''.enc'',
                                          ''encrypted/'' @ uuid_blob retry_fails_responses @ ''.enc'']
   \<and> snd (encrypt_document example_library retry_fails_responses example_world ''hello'' [])
       = Inl (Exception ''upload failed'')
   \<and> DocumentHashes (fst (encrypt_document example_library retry_fails_responses example_world
                             ''hello'' [])) = DocumentHashes example_world
   \<and> (\<exists>emd. snd (encrypt_document example_library retry_succeeds_responses example_world
                      ''hello'' [])
              = Inr (''encrypted/'' @ uuid_blob retry_succeeds_responses @ ''.enc'', emd))"
proof -
  have w1: "kms_encrypt retry_fails_responses
              (get_encryption_key_name example_library (service example_world))
              (generated_dek retry_fails_responses) = Inr ''wrapped:dek''" by code_simp
  have f1: "upload_error retry_fails_responses = Some (Exception ''upload failed'')" by code_simp
  have c1: "working_storage_credentials retry_fails_responses = Some (''token-2'', ''demo'')"
    by code_simp
  have r1: "retry_upload_error retry_fails_responses = Some (Exception ''retry failed'')"
    by code_simp
  have w2: "kms_encrypt retry_succeeds_responses
              (get_encryption_key_name example_library (service example_world))
              (generated_dek retry_succeeds_responses) = Inr ''wrapped:dek''" by code_simp
  have f2: "upload_error retry_succeeds_responses = Some (Exception ''upload failed'')"
    by code_simp
  have c2: "working_storage_credentials retry_succeeds_responses = Some (''token-2'', ''demo'')"
    by code_simp
  have r2: "retry_upload_error retry_succeeds_responses = None" by code_simp
  show ?thesis
    using encrypt_retry_policy [OF w1 f1, of "''hello''" "[]"]
      encrypt_retry_policy [OF w2 f2, of "''hello''" "[]"] f1 c1 r1 c2 r2
    by auto
qed


end
